theory Spec2Isabelle
  imports Main "HOL-Library.AList"
begin

section \<open>JavaScript values and the coercions the module relies on\<close>

text \<open>
  The module \<^verbatim>\<open>packages/pg-v5/lib/psql.js\<close> compares the value delivered by
  \<^verbatim>\<open>events.once\<close> with a number and splices it into a template literal, so the
  values and the coercions of the language are part of the program. Numbers are
  integers here (exit codes) plus \<^verbatim>\<open>NaN\<close>. Calls of \<^verbatim>\<open>debug\<close> only write a
  diagnostic line and are left out of the definitions.
\<close>

datatype jsval =
    JUndefined
  | JNull
  | JNum int
  | JNaN
  | JStr string
  | JArr "jsval list"

text \<open>An \<^verbatim>\<open>Error\<close> object: its \<^verbatim>\<open>name\<close>, its \<^verbatim>\<open>message\<close> and its optional
  \<^verbatim>\<open>code\<close> property (set by the runtime on system errors such as a failed spawn).\<close>

datatype js_error = JsError (err_name: string) (err_message: string) (err_code: "string option")

definition new_Error :: "string \<Rightarrow> js_error" where
  "new_Error msg = JsError ''Error'' msg None"

fun show_nat :: "nat \<Rightarrow> string" where
  "show_nat n =
     (if n < 10 then [''0123456789'' ! n]
      else show_nat (n div 10) @ [''0123456789'' ! (n mod 10)])"

declare show_nat.simps [simp del]

definition show_int :: "int \<Rightarrow> string" where
  "show_int i = (if i < 0 then CHR ''-'' # show_nat (nat (- i)) else show_nat (nat i))"

fun join_with :: "string \<Rightarrow> string list \<Rightarrow> string" where
  "join_with sep [] = []"
| "join_with sep [x] = x"
| "join_with sep (x # y # ys) = x @ sep @ join_with sep (y # ys)"

text \<open>\<^verbatim>\<open>ToString\<close>. An array prints as its elements joined by a comma, where
  \<^verbatim>\<open>null\<close> and \<^verbatim>\<open>undefined\<close> elements print as the empty string
  (\<^verbatim>\<open>Array.prototype.join\<close>).\<close>

fun js_to_string :: "jsval \<Rightarrow> string" where
  "js_to_string JUndefined = ''undefined''"
| "js_to_string JNull = ''null''"
| "js_to_string (JNum n) = show_int n"
| "js_to_string JNaN = ''NaN''"
| "js_to_string (JStr s) = s"
| "js_to_string (JArr xs) =
     join_with '',''
       (map (\<lambda>x. if x = JUndefined \<or> x = JNull then [] else js_to_string x) xs)"

definition is_js_space :: "char \<Rightarrow> bool" where
  "is_js_space c = (c \<in> set [CHR '' '', CHR 0x09, CHR 0x0A, CHR 0x0B, CHR 0x0C, CHR 0x0D])"

definition js_trim :: "string \<Rightarrow> string" where
  "js_trim s = rev (dropWhile is_js_space (rev (dropWhile is_js_space s)))"

definition is_digit :: "char \<Rightarrow> bool" where
  "is_digit c = (c \<in> set ''0123456789'')"

definition digit_val :: "char \<Rightarrow> nat" where
  "digit_val c = of_char c - 48"

definition digits_val :: "string \<Rightarrow> nat" where
  "digits_val ds = foldl (\<lambda>acc c. 10 * acc + digit_val c) 0 ds"

text \<open>\<^verbatim>\<open>StringToNumber\<close>, for the strings that arise here: the empty string (after
  trimming) is 0, a decimal integer literal with an optional sign is its value, and a
  string that is no numeric literal is \<^verbatim>\<open>NaN\<close> (\<open>None\<close>). Fractions, exponents and
  radix prefixes are not integers of this model; no string built by the module has
  that form.\<close>

definition string_to_number :: "string \<Rightarrow> int option" where
  "string_to_number s =
     (let t = js_trim s in
      if t = [] then Some 0
      else if hd t = CHR ''-'' \<and> tl t \<noteq> [] \<and> list_all is_digit (tl t)
        then Some (- int (digits_val (tl t)))
      else if hd t = CHR ''+'' \<and> tl t \<noteq> [] \<and> list_all is_digit (tl t)
        then Some (int (digits_val (tl t)))
      else if list_all is_digit t then Some (int (digits_val t))
      else None)"

text \<open>\<^verbatim>\<open>ToPrimitive\<close> with hint number: an array has no primitive \<^verbatim>\<open>valueOf\<close>, so
  its \<^verbatim>\<open>toString\<close> is taken.\<close>

definition js_to_primitive :: "jsval \<Rightarrow> jsval" where
  "js_to_primitive v = (case v of JArr xs \<Rightarrow> JStr (js_to_string (JArr xs)) | _ \<Rightarrow> v)"

text \<open>\<^verbatim>\<open>ToNumber\<close> of a primitive; \<open>None\<close> is \<^verbatim>\<open>NaN\<close>.\<close>

definition js_to_number :: "jsval \<Rightarrow> int option" where
  "js_to_number v =
     (case v of
        JUndefined \<Rightarrow> None
      | JNull \<Rightarrow> Some 0
      | JNum n \<Rightarrow> Some n
      | JNaN \<Rightarrow> None
      | JStr s \<Rightarrow> string_to_number s
      | JArr xs \<Rightarrow> string_to_number (js_to_string (JArr xs)))"

text \<open>The operator \<^verbatim>\<open>a > b\<close> where \<^verbatim>\<open>b\<close> is a number: both sides go through
  \<^verbatim>\<open>ToPrimitive\<close> and \<^verbatim>\<open>ToNumber\<close>, and a comparison with \<^verbatim>\<open>NaN\<close> is false.\<close>

definition js_gt_num :: "jsval \<Rightarrow> int \<Rightarrow> bool" where
  "js_gt_num a b =
     (case js_to_number (js_to_primitive a) of
        None \<Rightarrow> False
      | Some n \<Rightarrow> n > b)"

section \<open>The child process\<close>

text \<open>The handle returned by \<^verbatim>\<open>child_process.spawn\<close>. \<open>killed\<close> is the runtime's
  \<^verbatim>\<open>subprocess.killed\<close> flag: it is set when \<^verbatim>\<open>subprocess.kill()\<close> has delivered a
  signal, and says nothing about a process that ended by itself. \<open>alive\<close> tells whether
  the operating-system process still exists, \<open>delivered\<close> lists the signals sent to it.\<close>

record child_process =
  spawnfile :: string
  spawnargs :: "string list"
  killed :: bool
  alive :: bool
  delivered :: "string list"

text \<open>The runtime's \<^verbatim>\<open>subprocess.kill(signal)\<close>: a live process receives the signal and
  the flag is set; for a process that is gone nothing is sent.\<close>

definition subprocess_kill :: "child_process \<Rightarrow> string \<Rightarrow> child_process" where
  "subprocess_kill cp signal =
     (if alive cp then cp\<lparr>killed := True, delivered := delivered cp @ [signal]\<rparr> else cp)"

text \<open>What the two events of the child hand to \<^verbatim>\<open>once(psql, 'close')\<close>: the promise is
  fulfilled with the array of the arguments of \<^verbatim>\<open>'close'\<close> (exit code and signal), or
  rejected with the argument of \<^verbatim>\<open>'error'\<close>.\<close>

datatype child_event = ChildClose jsval jsval | ChildError js_error

definition once_child :: "child_event \<Rightarrow> js_error + jsval" where
  "once_child ev =
     (case ev of
        ChildClose code signal \<Rightarrow> Inr (JArr [code, signal])
      | ChildError err \<Rightarrow> Inl err)"

definition install_help :: string where
  "install_help = ''The local psql command could not be located. For help installing psql, see https://devcenter.heroku.com/articles/heroku-postgresql#local-setup''"

text \<open>\<^verbatim>\<open>waitForPSQLExit\<close>, as a function of the way \<^verbatim>\<open>once(psql, 'close')\<close> settles.
  The awaited value is bound to \<^verbatim>\<open>exitCode\<close> as it is, compared with 0, and an error
  thrown inside \<^verbatim>\<open>try\<close> passes through the \<^verbatim>\<open>catch\<close> block like a rejection.\<close>

definition waitForPSQLExit :: "js_error + jsval \<Rightarrow> js_error + unit" where
  "waitForPSQLExit settled =
     (let tried =
        (case settled of
           Inl err \<Rightarrow> Inl err
         | Inr exitCode \<Rightarrow>
             if js_gt_num exitCode 0
             then Inl (new_Error (''psql exited with code '' @ js_to_string exitCode))
             else Inr ())
      in case tried of
           Inr u \<Rightarrow> Inr u
         | Inl err \<Rightarrow>
             if err_code err = Some ''ENOENT'' then Inl (new_Error install_help)
             else Inl err)"

text \<open>The identifiers bound at module level. A call of any other free identifier
  raises \<^verbatim>\<open>ReferenceError\<close> when it is reached.\<close>

definition module_bindings :: "string list" where
  "module_bindings =
     [''once'', ''EventEmitter'', ''bastion'', ''debug'', ''psqlQueryOptions'',
      ''psqlFileOptions'', ''psqlInteractiveOptions'', ''execPSQL'', ''waitForPSQLExit'',
      ''kill'', ''trapAndForwardSignalsToChildProcess'', ''runWithTunnel'', ''Tunnel'',
      ''exec'', ''execFile'', ''interactive'']"

definition resolve_call :: "string list \<Rightarrow> string \<Rightarrow> js_error + unit" where
  "resolve_call locals f =
     (if f \<in> set (locals @ module_bindings) then Inr ()
      else Inl (JsError ''ReferenceError'' (f @ '' is not defined'') None))"

text \<open>\<^verbatim>\<open>kill(childProcess, signal)\<close>: inside the guard the function first calls the
  identifier \<^verbatim>\<open>psql\<close> with a log message, then \<^verbatim>\<open>childProcess.kill(signal)\<close>.\<close>

definition kill :: "child_process \<Rightarrow> string \<Rightarrow> js_error + child_process" where
  "kill childProcess signal =
     (if \<not> killed childProcess then
        (case resolve_call [''childProcess'', ''signal''] ''psql'' of
           Inl e \<Rightarrow> Inl e
         | Inr _ \<Rightarrow> Inr (subprocess_kill childProcess signal))
      else Inr childProcess)"

section \<open>The tunnel wrapper\<close>

text \<open>A promise is pending until it is settled, and settles once.\<close>

datatype 'a promise = Pending | Fulfilled 'a | Rejected js_error

definition settle :: "'a promise \<Rightarrow> 'a promise \<Rightarrow> 'a promise" where
  "settle v p = (case p of Pending \<Rightarrow> v | _ \<Rightarrow> p)"

definition settle_all :: "nat list \<Rightarrow> 'a promise \<Rightarrow> 'a promise list \<Rightarrow> 'a promise list" where
  "settle_all ids v ps =
     map (\<lambda>i. if i \<in> set ids then settle v (ps ! i) else ps ! i) [0..<length ps]"

text \<open>The object returned by \<^verbatim>\<open>bastion.sshTunnel\<close> is an event emitter owned by the
  tunnel library. \<open>transport\<close> is its internal state, of a type the module never looks
  into; \<open>close_waiters\<close> are the promises that \<^verbatim>\<open>once(this.bastionTunnel, 'close')\<close> has
  subscribed to it, in order of subscription.\<close>

record 'b bastion_tunnel =
  transport :: 'b
  close_waiters :: "nat list"

text \<open>\<^verbatim>\<open>class Tunnel\<close>: the optional bastion tunnel and the private emitter
  \<^verbatim>\<open>this.events\<close>, given by the promises subscribed to its \<^verbatim>\<open>'close'\<close> event.\<close>

record 'b Tunnel =
  bastionTunnel :: "'b bastion_tunnel option"
  events :: "nat list"

text \<open>The tunnel together with the table of the promises that its \<^verbatim>\<open>waitForClose\<close>
  calls have returned; a promise is named by its index.\<close>

record 'b heap =
  tunnel :: "'b Tunnel"
  promises :: "unit promise list"

definition Tunnel_new :: "'b option \<Rightarrow> 'b heap" where
  "Tunnel_new bt =
     \<lparr>tunnel = \<lparr>bastionTunnel = map_option (\<lambda>tr. \<lparr>transport = tr, close_waiters = []\<rparr>) bt,
                events = []\<rparr>,
      promises = []\<rparr>"

text \<open>\<^verbatim>\<open>Tunnel.connect\<close>: awaits \<^verbatim>\<open>bastion.sshTunnel(db, tunnelConfig)\<close>, which rejects,
  or yields a tunnel, or yields nothing when no bastion is needed.\<close>

definition Tunnel_connect :: "js_error + 'b option \<Rightarrow> js_error + 'b heap" where
  "Tunnel_connect sshTunnel =
     (case sshTunnel of Inl e \<Rightarrow> Inl e | Inr bt \<Rightarrow> Inr (Tunnel_new bt))"

definition tunnel_failed :: js_error where
  "tunnel_failed = new_Error ''Secure tunnel to your database failed''"

text \<open>The rest of \<^verbatim>\<open>waitForClose\<close> after its \<^verbatim>\<open>await\<close>, as a function of the way the
  awaited \<^verbatim>\<open>once\<close> promise settles: with a bastion tunnel a rejection is caught and a
  fresh error is thrown; without one nothing is caught.\<close>

definition waitForClose_after :: "bool \<Rightarrow> js_error + jsval \<Rightarrow> unit promise" where
  "waitForClose_after has_bastion settled =
     (if has_bastion then
        (case settled of Inr _ \<Rightarrow> Fulfilled () | Inl err \<Rightarrow> Rejected tunnel_failed)
      else
        (case settled of Inr _ \<Rightarrow> Fulfilled () | Inl err \<Rightarrow> Rejected err))"

text \<open>\<^verbatim>\<open>waitForClose()\<close> runs up to its \<^verbatim>\<open>await\<close>: it subscribes a new pending promise
  to the bastion tunnel if there is one, and to \<^verbatim>\<open>this.events\<close> otherwise.\<close>

definition Tunnel_waitForClose :: "'b heap \<Rightarrow> nat \<times> 'b heap" where
  "Tunnel_waitForClose h =
     (let p = length (promises h); t = tunnel h in
      case bastionTunnel t of
        Some bt \<Rightarrow>
          (p, h\<lparr>tunnel := t\<lparr>bastionTunnel := Some (bt\<lparr>close_waiters := close_waiters bt @ [p]\<rparr>)\<rparr>,
                promises := promises h @ [Pending]\<rparr>)
      | None \<Rightarrow>
          (p, h\<lparr>tunnel := t\<lparr>events := events t @ [p]\<rparr>,
                promises := promises h @ [Pending]\<rparr>))"

text \<open>\<^verbatim>\<open>close()\<close>: with a bastion tunnel it calls the library's \<^verbatim>\<open>close()\<close>, here the
  parameter \<open>bclose\<close>, which may throw; otherwise it emits \<^verbatim>\<open>'close'\<close> with argument 0 on
  \<^verbatim>\<open>this.events\<close>, which fires and removes every subscribed \<^verbatim>\<open>once\<close> listener.\<close>

definition Tunnel_close :: "('b \<Rightarrow> js_error + 'b) \<Rightarrow> 'b heap \<Rightarrow> js_error + 'b heap" where
  "Tunnel_close bclose h =
     (let t = tunnel h in
      case bastionTunnel t of
        Some bt \<Rightarrow>
          (case bclose (transport bt) of
             Inl e \<Rightarrow> Inl e
           | Inr tr \<Rightarrow> Inr (h\<lparr>tunnel := t\<lparr>bastionTunnel := Some (bt\<lparr>transport := tr\<rparr>)\<rparr>\<rparr>))
      | None \<Rightarrow>
          Inr (h\<lparr>tunnel := t\<lparr>events := []\<rparr>,
                 promises := settle_all (events t)
                               (waitForClose_after False (Inr (JArr [JNum 0]))) (promises h)\<rparr>))"

text \<open>What the tunnel library does by itself: the bastion tunnel emits \<^verbatim>\<open>'close'\<close>, or
  \<^verbatim>\<open>'error'\<close> with an error object. Either settles and unsubscribes the waiting
  \<^verbatim>\<open>once\<close> promises.\<close>

definition transport_emits :: "js_error + jsval \<Rightarrow> 'b heap \<Rightarrow> 'b heap" where
  "transport_emits settled h =
     (let t = tunnel h in
      case bastionTunnel t of
        None \<Rightarrow> h
      | Some bt \<Rightarrow>
          h\<lparr>tunnel := t\<lparr>bastionTunnel := Some (bt\<lparr>close_waiters := []\<rparr>)\<rparr>,
            promises := settle_all (close_waiters bt) (waitForClose_after True settled)
                          (promises h)\<rparr>)"

text \<open>Everything that can happen to a tunnel, to state what holds along any sequence
  of calls and events. A \<^verbatim>\<open>close()\<close> that throws leaves the state as it was.\<close>

datatype tunnel_op = WaitForClose | Close | TransportClose | TransportError js_error

fun tunnel_step :: "('b \<Rightarrow> js_error + 'b) \<Rightarrow> tunnel_op \<Rightarrow> 'b heap \<Rightarrow> 'b heap" where
  "tunnel_step bclose WaitForClose h = snd (Tunnel_waitForClose h)"
| "tunnel_step bclose Close h = (case Tunnel_close bclose h of Inl e \<Rightarrow> h | Inr h' \<Rightarrow> h')"
| "tunnel_step bclose TransportClose h = transport_emits (Inr (JArr [])) h"
| "tunnel_step bclose (TransportError err) h = transport_emits (Inl err) h"

definition tunnel_steps :: "('b \<Rightarrow> js_error + 'b) \<Rightarrow> tunnel_op list \<Rightarrow> 'b heap \<Rightarrow> 'b heap" where
  "tunnel_steps bclose ops h = fold (tunnel_step bclose) ops h"

section \<open>Options of the three modes\<close>

datatype stdio_policy = Inherit | Streams "string list"

record child_options =
  encoding :: "string option"
  stdio :: stdio_policy

record psql_options =
  dbEnv :: "(string \<times> string) list"
  psqlArgs :: "string list"
  childProcessOptions :: child_options
  pipeToStdout :: bool

definition psqlQueryOptions :: "string \<Rightarrow> (string \<times> string) list \<Rightarrow> psql_options" where
  "psqlQueryOptions query env =
     \<lparr>dbEnv = env,
      psqlArgs = [''-c'', query, ''--set'', ''sslmode=require''],
      childProcessOptions =
        \<lparr>encoding = Some ''utf8'', stdio = Streams [''ignore'', ''pipe'', ''inherit'']\<rparr>,
      pipeToStdout = True\<rparr>"

definition psqlFileOptions :: "string \<Rightarrow> (string \<times> string) list \<Rightarrow> psql_options" where
  "psqlFileOptions file env =
     \<lparr>dbEnv = env,
      psqlArgs = [''-f'', file, ''--set'', ''sslmode=require''],
      childProcessOptions =
        \<lparr>encoding = Some ''utf8'', stdio = Streams [''ignore'', ''pipe'', ''inherit'']\<rparr>,
      pipeToStdout = True\<rparr>"

text \<open>The file system as \<^verbatim>\<open>fs.existsSync\<close> and \<^verbatim>\<open>fs.statSync(p).isDirectory()\<close> see
  it: a path names nothing, a directory, or something else.\<close>

datatype fs_entry = File | Directory

type_synonym filesystem = "string \<Rightarrow> fs_entry option"

definition existsSync :: "filesystem \<Rightarrow> string \<Rightarrow> bool" where
  "existsSync fs p = (fs p \<noteq> None)"

definition isDirectory :: "filesystem \<Rightarrow> string \<Rightarrow> bool" where
  "isDirectory fs p = (fs p = Some Directory)"

text \<open>\<^verbatim>\<open>path.dirname\<close> for POSIX paths, as the runtime computes it: scan from the
  last character down to index 1 for the first slash that follows a non-slash.\<close>

fun dirname_scan :: "string \<Rightarrow> nat \<Rightarrow> bool \<Rightarrow> nat option" where
  "dirname_scan path 0 matchedSlash = None"
| "dirname_scan path (Suc i) matchedSlash =
     (if path ! Suc i = CHR ''/''
      then (if \<not> matchedSlash then Some (Suc i) else dirname_scan path i matchedSlash)
      else dirname_scan path i False)"

definition dirname :: "string \<Rightarrow> string" where
  "dirname path =
     (if path = [] then ''.''
      else
        (let hasRoot = (hd path = CHR ''/'') in
         case dirname_scan path (length path - 1) True of
           None \<Rightarrow> (if hasRoot then ''/'' else ''.'')
         | Some e \<Rightarrow> (if hasRoot \<and> e = 1 then ''//'' else take e path)))"

text \<open>\<^verbatim>\<open>psqlInteractiveOptions(prompt, dbEnv)\<close>. It also reads the environment variable
  \<^verbatim>\<open>HEROKU_PSQL_HISTORY\<close> (absent, or a string; the empty string is falsy) and the file
  system, and it may print a warning; the warnings are returned beside the options.
  \<^verbatim>\<open>prompt.split(':')[0]\<close> is the part of the prompt before its first colon.\<close>

definition psqlInteractiveOptions ::
  "string option \<Rightarrow> filesystem \<Rightarrow> string \<Rightarrow> (string \<times> string) list \<Rightarrow> psql_options \<times> string list"
where
  "psqlInteractiveOptions history fs prompt env =
     (let args0 = [''--set'', ''PROMPT1='' @ prompt, ''--set'', ''PROMPT2='' @ prompt];
          (args1, warnings) =
            (case history of
               None \<Rightarrow> (args0, [])
             | Some psqlHistoryPath \<Rightarrow>
                 if psqlHistoryPath = [] then (args0, [])
                 else if existsSync fs psqlHistoryPath \<and> isDirectory fs psqlHistoryPath then
                   (args0 @ [''--set'',
                             ''HISTFILE='' @ psqlHistoryPath @ ''/''
                               @ takeWhile (\<lambda>c. c \<noteq> CHR '':'') prompt], [])
                 else if existsSync fs (dirname psqlHistoryPath) then
                   (args0 @ [''--set'', ''HISTFILE='' @ psqlHistoryPath], [])
                 else
                   (args0, [''HEROKU_PSQL_HISTORY is set but is not a valid path (''
                              @ psqlHistoryPath @ '')'']))
      in (\<lparr>dbEnv = env,
           psqlArgs = args1 @ [''--set'', ''sslmode=require''],
           childProcessOptions = \<lparr>encoding = None, stdio = Inherit\<rparr>,
           pipeToStdout = False\<rparr>,
          warnings))"

text \<open>\<^verbatim>\<open>execPSQL\<close>: \<^verbatim>\<open>spawn('psql', psqlArgs, options)\<close> returns a handle at once; a
  failure to start the program is reported later, by an \<^verbatim>\<open>'error'\<close> event.\<close>

definition execPSQL :: "psql_options \<Rightarrow> child_process" where
  "execPSQL options =
     \<lparr>spawnfile = ''psql'', spawnargs = psqlArgs options,
      killed = False, alive = True, delivered = []\<rparr>"

section \<open>Signal listeners of the process\<close>

text \<open>A listener function is known by its identity. \<open>Forwarder n signal\<close> is the closure
  \<^verbatim>\<open>() => kill(childProcess, signal)\<close> created as function number \<open>n\<close>; \<open>Foreign n\<close>
  is a listener that some other part of the program has registered.\<close>

datatype listener = Foreign nat | Forwarder nat string

text \<open>The listeners registered on \<^verbatim>\<open>process\<close>, each with the signal it listens to, in
  order of registration, and the number of the next function object.\<close>

record process =
  sig_listeners :: "(string \<times> listener) list"
  next_fn :: nat

definition removeAllListeners :: "string \<Rightarrow> process \<Rightarrow> process" where
  "removeAllListeners signal pr =
     pr\<lparr>sig_listeners := filter (\<lambda>sl. fst sl \<noteq> signal) (sig_listeners pr)\<rparr>"

definition process_on :: "string \<Rightarrow> listener \<Rightarrow> process \<Rightarrow> process" where
  "process_on signal l pr = pr\<lparr>sig_listeners := sig_listeners pr @ [(signal, l)]\<rparr>"

text \<open>\<^verbatim>\<open>removeListener\<close> removes the most recently added instance, if there is one.\<close>

definition removeListener :: "string \<Rightarrow> listener \<Rightarrow> process \<Rightarrow> process" where
  "removeListener signal l pr =
     pr\<lparr>sig_listeners := rev (remove1 (signal, l) (rev (sig_listeners pr)))\<rparr>"

definition signalsToTrap :: "string list" where
  "signalsToTrap = [''SIGINT'']"

text \<open>The body of \<^verbatim>\<open>signalsToTrap.map\<close>, threaded through the process state.\<close>

fun trap_signals :: "string list \<Rightarrow> process \<Rightarrow> (string \<times> listener) list \<times> process" where
  "trap_signals [] pr = ([], pr)"
| "trap_signals (signal # rest) pr =
     (let pr1 = removeAllListeners signal pr;
          l = Forwarder (next_fn pr1) signal;
          pr2 = process_on signal l (pr1\<lparr>next_fn := Suc (next_fn pr1)\<rparr>);
          (traps, pr3) = trap_signals rest pr2
      in ((signal, l) # traps, pr3))"

text \<open>\<^verbatim>\<open>trapAndForwardSignalsToChildProcess\<close> returns the closure \<^verbatim>\<open>cleanup\<close>, which is
  determined by the list \<^verbatim>\<open>signalTraps\<close> it has captured.\<close>

definition trapAndForwardSignalsToChildProcess ::
  "process \<Rightarrow> (string \<times> listener) list \<times> process" where
  "trapAndForwardSignalsToChildProcess pr = trap_signals signalsToTrap pr"

definition cleanup :: "(string \<times> listener) list \<Rightarrow> process \<Rightarrow> process" where
  "cleanup signalTraps pr = fold (\<lambda>sl. removeListener (fst sl) (snd sl)) signalTraps pr"

section \<open>One orchestration run\<close>

text \<open>The state a run works on: the process's listeners, the child handle, and the
  tunnel with its promises.\<close>

record 'b sys =
  proc :: process
  psql :: child_process
  tun :: "'b heap"

text \<open>A signal arrives at the process. Its listeners run in order; a forwarder calls
  \<^verbatim>\<open>kill\<close> on the child of the run. An exception that leaves a listener is uncaught.
  A signal without a listener takes the runtime's default action.\<close>

fun run_listeners :: "listener list \<Rightarrow> child_process \<Rightarrow> js_error + child_process" where
  "run_listeners [] cp = Inr cp"
| "run_listeners (Foreign n # ls) cp = run_listeners ls cp"
| "run_listeners (Forwarder n signal # ls) cp =
     (case kill cp signal of Inl e \<Rightarrow> Inl e | Inr cp' \<Rightarrow> run_listeners ls cp')"

definition listeners_of :: "string \<Rightarrow> process \<Rightarrow> listener list" where
  "listeners_of signal pr = map snd (filter (\<lambda>sl. fst sl = signal) (sig_listeners pr))"

datatype 'b delivery = Handled "'b sys" | Uncaught js_error | DefaultAction

definition deliver :: "string \<Rightarrow> 'b sys \<Rightarrow> 'b delivery" where
  "deliver signal s =
     (case listeners_of signal (proc s) of
        [] \<Rightarrow> DefaultAction
      | l # ls \<Rightarrow>
          (case run_listeners (l # ls) (psql s) of
             Inl e \<Rightarrow> Uncaught e
           | Inr cp \<Rightarrow> Handled (s\<lparr>psql := cp\<rparr>)))"

text \<open>What the environment does during a run, in the order in which it happens.\<close>

datatype env_event =
    Child child_event
  | TunnelClosed
  | TunnelErrored js_error
  | Signal string

datatype teardown_step = RestoreSignals | CloseTunnel | KillChild

text \<open>How a run ends: the tunnel could not be connected; the promise of
  \<^verbatim>\<open>runWithTunnel\<close> settled, after the listed teardown steps were called; neither wait
  ever settles; or the process dies during the race.\<close>

datatype 'b run =
    ConnectFailed js_error process
  | Completed "js_error + unit" "teardown_step list" "'b sys"
  | Suspended "'b sys"
  | UncaughtException js_error
  | TerminatedBySignal string

datatype 'b raced = Settled "js_error + unit" "'b sys" | Stopped "'b run"

text \<open>\<^verbatim>\<open>Promise.race([waitForPSQLExit(psql), tunnel.waitForClose()])\<close>, where \<open>p\<close> is the
  promise of \<^verbatim>\<open>tunnel.waitForClose()\<close>: the first event that settles one of the two
  waits settles the race.\<close>

fun race :: "nat \<Rightarrow> env_event list \<Rightarrow> 'b sys \<Rightarrow> 'b raced" where
  "race p [] s = Stopped (Suspended s)"
| "race p (Child ev # evs) s =
     Settled (waitForPSQLExit (once_child ev)) (s\<lparr>psql := (psql s)\<lparr>alive := False\<rparr>\<rparr>)"
| "race p (TunnelClosed # evs) s =
     (let s' = s\<lparr>tun := transport_emits (Inr (JArr [])) (tun s)\<rparr> in
      case promises (tun s') ! p of
        Pending \<Rightarrow> race p evs s'
      | Fulfilled u \<Rightarrow> Settled (Inr ()) s'
      | Rejected e \<Rightarrow> Settled (Inl e) s')"
| "race p (TunnelErrored err # evs) s =
     (let s' = s\<lparr>tun := transport_emits (Inl err) (tun s)\<rparr> in
      case promises (tun s') ! p of
        Pending \<Rightarrow> race p evs s'
      | Fulfilled u \<Rightarrow> Settled (Inr ()) s'
      | Rejected e \<Rightarrow> Settled (Inl e) s')"
| "race p (Signal signal # evs) s =
     (case deliver signal s of
        Handled s' \<Rightarrow> race p evs s'
      | Uncaught e \<Rightarrow> Stopped (UncaughtException e)
      | DefaultAction \<Rightarrow> Stopped (TerminatedBySignal signal))"

text \<open>The \<^verbatim>\<open>finally\<close> block, entered with the outcome \<open>r\<close> of the race (the
  \<^verbatim>\<open>catch\<close> block rethrows what it caught). Its three calls are statements in
  sequence: an exception leaves the block at once and becomes the outcome of the
  function; if the block runs to its end, the outcome of the race stands.\<close>

definition teardown ::
  "(string \<times> listener) list \<Rightarrow> ('b \<Rightarrow> js_error + 'b) \<Rightarrow> js_error + unit \<Rightarrow> 'b sys \<Rightarrow> 'b run"
where
  "teardown signalTraps bclose r s =
     (let s1 = s\<lparr>proc := cleanup signalTraps (proc s)\<rparr> in
      case Tunnel_close bclose (tun s1) of
        Inl e \<Rightarrow> Completed (Inl e) [RestoreSignals, CloseTunnel] s1
      | Inr h \<Rightarrow>
          (let s2 = s1\<lparr>tun := h\<rparr> in
           case kill (psql s2) ''SIGKILL'' of
             Inl e \<Rightarrow> Completed (Inl e) [RestoreSignals, CloseTunnel, KillChild] s2
           | Inr cp \<Rightarrow> Completed r [RestoreSignals, CloseTunnel, KillChild] (s2\<lparr>psql := cp\<rparr>)))"

text \<open>\<^verbatim>\<open>runWithTunnel(db, tunnelConfig, options)\<close>, given the listeners of the process
  before the call, the way \<^verbatim>\<open>bastion.sshTunnel\<close> settles, the tunnel library's
  \<^verbatim>\<open>close\<close>, and the events that follow.\<close>

definition runWithTunnel ::
  "process \<Rightarrow> js_error + 'b option \<Rightarrow> ('b \<Rightarrow> js_error + 'b) \<Rightarrow> psql_options \<Rightarrow> env_event list
     \<Rightarrow> 'b run"
where
  "runWithTunnel pr sshTunnel bclose options evs =
     (case Tunnel_connect sshTunnel of
        Inl e \<Rightarrow> ConnectFailed e pr
      | Inr h0 \<Rightarrow>
          (let child = execPSQL options;
               (signalTraps, pr1) = trapAndForwardSignalsToChildProcess pr;
               (p, h1) = Tunnel_waitForClose h0
           in case race p evs \<lparr>proc = pr1, psql = child, tun = h1\<rparr> of
                Settled r s \<Rightarrow> teardown signalTraps bclose r s
              | Stopped x \<Rightarrow> x))"

text \<open>\<^verbatim>\<open>interactive(db)\<close> builds the prompt and the options and runs them.\<close>

definition interactive ::
  "string \<Rightarrow> string \<Rightarrow> (string \<times> string) list \<Rightarrow> string option \<Rightarrow> filesystem \<Rightarrow> process
     \<Rightarrow> js_error + 'b option \<Rightarrow> ('b \<Rightarrow> js_error + 'b) \<Rightarrow> env_event list \<Rightarrow> 'b run \<times> string list"
where
  "interactive app_name attachment_name env history fs pr sshTunnel bclose evs =
     (let prompt = app_name @ ''::'' @ attachment_name @ ''%R%# '';
          env' = AList.update ''PGAPPNAME'' ''psql interactive'' env;
          (options, warnings) = psqlInteractiveOptions history fs prompt env'
      in (runWithTunnel pr sshTunnel bclose options evs, warnings))"

section \<open>What a caller observes of a run\<close>

text \<open>The settled outcome of the promise of \<^verbatim>\<open>runWithTunnel\<close>, if it settles.\<close>

definition outcome :: "'b run \<Rightarrow> (js_error + unit) option" where
  "outcome x =
     (case x of
        ConnectFailed e pr \<Rightarrow> Some (Inl e)
      | Completed r steps s \<Rightarrow> Some r
      | _ \<Rightarrow> None)"

text \<open>The teardown steps that were called.\<close>

definition attempted :: "'b run \<Rightarrow> teardown_step list" where
  "attempted x = (case x of Completed r steps s \<Rightarrow> steps | _ \<Rightarrow> [])"

text \<open>The child handle and the tunnel as the \<^verbatim>\<open>finally\<close> phase leaves them.\<close>

definition final_child :: "'b run \<Rightarrow> child_process option" where
  "final_child x = (case x of Completed r steps s \<Rightarrow> Some (psql s) | _ \<Rightarrow> None)"

definition final_tunnel :: "'b run \<Rightarrow> 'b heap option" where
  "final_tunnel x = (case x of Completed r steps s \<Rightarrow> Some (tun s) | _ \<Rightarrow> None)"

text \<open>The part of \<^verbatim>\<open>runWithTunnel\<close> before its \<^verbatim>\<open>finally\<close> phase, for a tunnel that
  has connected: spawn the child, trap the signals, and race the two waits.\<close>

definition try_block ::
  "process \<Rightarrow> 'b option \<Rightarrow> psql_options \<Rightarrow> env_event list \<Rightarrow> 'b raced" where
  "try_block pr bt options evs =
     (let child = execPSQL options;
          (signalTraps, pr1) = trapAndForwardSignalsToChildProcess pr;
          (p, h1) = Tunnel_waitForClose (Tunnel_new bt)
      in race p evs \<lparr>proc = pr1, psql = child, tun = h1\<rparr>)"

text \<open>The signal listeners of the process once the promise has settled.\<close>

definition final_listeners :: "'b run \<Rightarrow> (string \<times> listener) list option" where
  "final_listeners x =
     (case x of
        ConnectFailed e pr \<Rightarrow> Some (sig_listeners pr)
      | Completed r steps s \<Rightarrow> Some (sig_listeners (proc s))
      | _ \<Rightarrow> None)"

text \<open>A promise of a tunnel without bastion that is subscribed and pending.\<close>

definition synthetic_pending :: "nat \<Rightarrow> 'b heap \<Rightarrow> bool" where
  "synthetic_pending p h =
     (bastionTunnel (tunnel h) = None \<and> p \<in> set (events (tunnel h)) \<and>
      p < length (promises h) \<and> promises h ! p = Pending)"

text \<open>A promise of a tunnel with bastion that is subscribed and pending.\<close>

definition bastion_pending :: "nat \<Rightarrow> 'b heap \<Rightarrow> bool" where
  "bastion_pending p h =
     (case bastionTunnel (tunnel h) of
        None \<Rightarrow> False
      | Some bt \<Rightarrow>
          p \<in> set (close_waiters bt) \<and> p < length (promises h) \<and> promises h ! p = Pending)"

text \<open>Concrete values used to instantiate the theorems below.\<close>

definition enoent :: js_error where
  "enoent = JsError ''Error'' ''spawn psql ENOENT'' (Some ''ENOENT'')"

definition sample_options :: psql_options where
  "sample_options = psqlQueryOptions ''select 1'' [(''PGHOST'', ''localhost'')]"

definition sample_process :: process where
  "sample_process =
     \<lparr>sig_listeners = [(''SIGINT'', Foreign 0), (''SIGTERM'', Foreign 1)], next_fn = 7\<rparr>"

definition counting_close :: "nat \<Rightarrow> js_error + nat" where
  "counting_close n = Inr (Suc n)"

definition failing_close :: "nat \<Rightarrow> js_error + nat" where
  "failing_close n = Inl (new_Error ''boom'')"

definition eacces :: js_error where
  "eacces = JsError ''Error'' ''spawn psql EACCES'' (Some ''EACCES'')"

definition home_fs :: filesystem where
  "home_fs = [''/home/u'' \<mapsto> Directory, ''/home/u/notes'' \<mapsto> File, ''.'' \<mapsto> Directory]"

section \<open>Helper facts\<close>

lemmas run_defs =
  runWithTunnel_def Tunnel_connect_def Tunnel_new_def Tunnel_waitForClose_def
  trapAndForwardSignalsToChildProcess_def signalsToTrap_def execPSQL_def teardown_def
  Tunnel_close_def kill_def resolve_call_def module_bindings_def cleanup_def
  removeAllListeners_def process_on_def removeListener_def transport_emits_def
  waitForClose_after_def settle_all_def settle_def tunnel_failed_def new_Error_def
  outcome_def attempted_def final_listeners_def deliver_def listeners_of_def

lemma resolve_psql_in_kill:
  "resolve_call [''childProcess'', ''signal''] ''psql''
     = Inl (JsError ''ReferenceError'' ''psql is not defined'' None)"
  by (simp add: resolve_call_def module_bindings_def)

lemma kill_not_killed:
  "\<not> killed cp \<Longrightarrow> kill cp sg = Inl (JsError ''ReferenceError'' ''psql is not defined'' None)"
  by (simp add: kill_def resolve_psql_in_kill)

lemma kill_killed: "killed cp \<Longrightarrow> kill cp sg = Inr cp"
  by (simp add: kill_def)

subsection \<open>The comparison of the close arguments with 0\<close>

lemma mem_dropWhile: "x \<in> set xs \<Longrightarrow> \<not> P x \<Longrightarrow> x \<in> set (dropWhile P xs)"
  by (induction xs) auto

lemma comma_not_space: "\<not> is_js_space (CHR '','')"
  by (simp add: is_js_space_def)

lemma comma_not_digit: "\<not> is_digit (CHR '','')"
  by (simp add: is_digit_def)

lemma comma_in_trim: "CHR '','' \<in> set s \<Longrightarrow> CHR '','' \<in> set (js_trim s)"
  by (simp add: js_trim_def mem_dropWhile comma_not_space)

lemma string_to_number_comma:
  assumes "CHR '','' \<in> set s"
  shows "string_to_number s = None"
proof -
  let ?t = "js_trim s"
  have m: "CHR '','' \<in> set ?t" using assms by (rule comma_in_trim)
  then have ne: "?t \<noteq> []" by auto
  from m have nd: "\<not> list_all is_digit ?t"
    using comma_not_digit by (auto simp: list_all_iff)
  have tl: "hd ?t \<noteq> CHR '','' \<Longrightarrow> \<not> list_all is_digit (tl ?t)"
    using m ne comma_not_digit by (cases ?t) (auto simp: list_all_iff)
  show ?thesis
    using ne nd tl by (auto simp: string_to_number_def Let_def)
qed

lemma close_array_not_gt: "\<not> js_gt_num (JArr [code, signal]) 0"
proof -
  have "CHR '','' \<in> set (js_to_string (JArr [code, signal]))" by simp
  then have "string_to_number (js_to_string (JArr [code, signal])) = None"
    by (rule string_to_number_comma)
  then show ?thesis
    by (simp add: js_gt_num_def js_to_primitive_def js_to_number_def del: js_to_string.simps)
qed

text \<open>Whatever the exit code and the signal are, the wait resolves.\<close>

lemma waitForPSQLExit_close: "waitForPSQLExit (once_child (ChildClose code signal)) = Inr ()"
  using close_array_not_gt [of code signal]
  by (simp add: waitForPSQLExit_def once_child_def del: js_to_string.simps)

text \<open>The wait itself turns a rejection with code \<^verbatim>\<open>ENOENT\<close> into the install help,
  and passes every other rejection on.\<close>

lemma waitForPSQLExit_ENOENT:
  "err_code err = Some ''ENOENT'' \<Longrightarrow>
     waitForPSQLExit (once_child (ChildError err)) = Inl (new_Error install_help)"
  by (simp add: waitForPSQLExit_def once_child_def)

lemma waitForPSQLExit_other_error:
  "err_code err \<noteq> Some ''ENOENT'' \<Longrightarrow> waitForPSQLExit (once_child (ChildError err)) = Inl err"
  by (simp add: waitForPSQLExit_def once_child_def)

subsection \<open>Promises of the tunnel\<close>

lemma length_settle_all [simp]: "length (settle_all ids v ps) = length ps"
  by (simp add: settle_all_def)

lemma nth_settle_all:
  "i < length ps \<Longrightarrow>
     settle_all ids v ps ! i = (if i \<in> set ids then settle v (ps ! i) else ps ! i)"
  by (simp add: settle_all_def)

lemma settle_all_Nil [simp]: "settle_all [] v ps = ps"
  by (simp add: settle_all_def map_nth)

lemma synthetic_pending_wait:
  "bastionTunnel (tunnel h) = None \<Longrightarrow> Tunnel_waitForClose h = (p, h1) \<Longrightarrow>
     synthetic_pending p h1"
  by (auto simp: Tunnel_waitForClose_def synthetic_pending_def Let_def)

lemma synthetic_pending_step:
  "synthetic_pending p h \<Longrightarrow> op \<noteq> Close \<Longrightarrow> synthetic_pending p (tunnel_step bclose op h)"
  by (cases op)
     (auto simp: synthetic_pending_def Tunnel_waitForClose_def transport_emits_def Let_def
                 nth_append)

lemma synthetic_pending_steps:
  "synthetic_pending p h \<Longrightarrow> Close \<notin> set ops \<Longrightarrow>
     synthetic_pending p (tunnel_steps bclose ops h)"
  unfolding tunnel_steps_def
proof (induction ops arbitrary: h)
  case Nil
  then show ?case by simp
next
  case (Cons op ops)
  then have "op \<noteq> Close" and "Close \<notin> set ops" by auto
  with Cons show ?case by (simp add: synthetic_pending_step)
qed

lemma synthetic_close:
  assumes "bastionTunnel (tunnel h) = None"
  shows "\<exists>h2. Tunnel_close bclose h = Inr h2 \<and> events (tunnel h2) = [] \<and>
           bastionTunnel (tunnel h2) = None \<and> length (promises h2) = length (promises h) \<and>
           (\<forall>i < length (promises h). promises h2 ! i =
               (if i \<in> set (events (tunnel h)) then settle (Fulfilled ()) (promises h ! i)
                else promises h ! i)) \<and>
           Tunnel_close bclose h2 = Inr h2"
  using assms
  by (simp add: Tunnel_close_def Let_def nth_settle_all waitForClose_after_def)

lemma bastion_pending_wait:
  "bastionTunnel (tunnel h) = Some bt \<Longrightarrow> Tunnel_waitForClose h = (p, h1) \<Longrightarrow>
     bastion_pending p h1"
  by (auto simp: Tunnel_waitForClose_def bastion_pending_def Let_def)

lemma bastion_pending_step:
  "bastion_pending p h \<Longrightarrow> op = WaitForClose \<or> op = Close \<Longrightarrow>
     bastion_pending p (tunnel_step bclose op h)"
  by (auto simp: bastion_pending_def Tunnel_waitForClose_def Tunnel_close_def Let_def nth_append
           split: option.splits sum.splits)

lemma bastion_pending_steps:
  "bastion_pending p h \<Longrightarrow> list_all (\<lambda>op. op = WaitForClose \<or> op = Close) ops \<Longrightarrow>
     bastion_pending p (tunnel_steps bclose ops h)"
  unfolding tunnel_steps_def
proof (induction ops arbitrary: h)
  case Nil
  then show ?case by simp
next
  case (Cons op ops)
  then show ?case using bastion_pending_step [of p h op bclose] by simp
qed

subsection \<open>The race leaves the listeners alone\<close>

lemma deliver_proc: "deliver sg s = Handled s' \<Longrightarrow> proc s' = proc s"
  by (auto simp: deliver_def split: list.splits sum.splits)

lemma race_proc: "race p evs s = Settled r s' \<Longrightarrow> proc s' = proc s"
proof (induction p evs s rule: race.induct)
  case (1 p s)
  then show ?case by simp
next
  case (2 p ev evs s)
  then show ?case by auto
next
  case (3 p evs s)
  then show ?case by (auto simp: Let_def split: promise.splits)
next
  case (4 p err evs s)
  then show ?case by (auto simp: Let_def split: promise.splits)
next
  case (5 p signal evs s)
  then show ?case by (auto split: delivery.splits dest: deliver_proc)
qed

lemma race_not_completed: "race p evs s \<noteq> Stopped (Completed r steps s')"
proof (induction p evs s rule: race.induct)
  case (1 p s)
  then show ?case by simp
next
  case (2 p ev evs s)
  then show ?case by simp
next
  case (3 p evs s)
  then show ?case by (simp add: Let_def split: promise.splits)
next
  case (4 p err evs s)
  then show ?case by (simp add: Let_def split: promise.splits)
next
  case (5 p signal evs s)
  then show ?case by (simp split: delivery.splits)
qed

lemma race_not_connect_failed: "race p evs s \<noteq> Stopped (ConnectFailed e pr)"
proof (induction p evs s rule: race.induct)
  case (1 p s)
  then show ?case by simp
next
  case (2 p ev evs s)
  then show ?case by simp
next
  case (3 p evs s)
  then show ?case by (simp add: Let_def split: promise.splits)
next
  case (4 p err evs s)
  then show ?case by (simp add: Let_def split: promise.splits)
next
  case (5 p signal evs s)
  then show ?case by (simp split: delivery.splits)
qed

lemma trap_then_cleanup:
  "trapAndForwardSignalsToChildProcess pr = (traps, pr1) \<Longrightarrow>
     sig_listeners (cleanup traps pr1) = filter (\<lambda>sl. fst sl \<noteq> ''SIGINT'') (sig_listeners pr)"
  by (auto simp: trapAndForwardSignalsToChildProcess_def signalsToTrap_def Let_def cleanup_def
        removeAllListeners_def process_on_def removeListener_def)

lemma run_after_try_block:
  "runWithTunnel pr (Inr bt) bclose options evs =
     (case try_block pr bt options evs of
        Settled r s \<Rightarrow> teardown (fst (trapAndForwardSignalsToChildProcess pr)) bclose r s
      | Stopped x \<Rightarrow> x)"
  by (cases "trapAndForwardSignalsToChildProcess pr"; cases "Tunnel_waitForClose (Tunnel_new bt)")
     (simp add: runWithTunnel_def try_block_def Tunnel_connect_def Let_def split: raced.splits)

lemma try_block_proc:
  "try_block pr bt options evs = Settled r s \<Longrightarrow>
     proc s = snd (trapAndForwardSignalsToChildProcess pr)"
  by (auto simp: try_block_def Let_def split: prod.splits dest: race_proc)

lemma teardown_proc:
  "teardown traps bclose r s = Completed r' steps s' \<Longrightarrow> proc s' = cleanup traps (proc s)"
  by (auto simp: teardown_def Let_def split: sum.splits)

lemma teardown_not_connect_failed: "teardown traps bclose r s \<noteq> ConnectFailed e pr"
  by (auto simp: teardown_def Let_def split: sum.splits)

lemma completed_listeners:
  assumes "runWithTunnel pr (Inr bt) bclose options evs = Completed r steps s"
  shows "sig_listeners (proc s) = filter (\<lambda>sl. fst sl \<noteq> ''SIGINT'') (sig_listeners pr)"
proof -
  obtain traps pr1 where t: "trapAndForwardSignalsToChildProcess pr = (traps, pr1)"
    by (cases "trapAndForwardSignalsToChildProcess pr")
  obtain p h1 where w: "Tunnel_waitForClose (Tunnel_new bt) = (p, h1)"
    by (cases "Tunnel_waitForClose (Tunnel_new bt)")
  let ?s0 = "\<lparr>proc = pr1, psql = execPSQL options, tun = h1\<rparr>"
  from assms t w obtain r0 s0 where
    rc: "race p evs ?s0 = Settled r0 s0" and td: "teardown traps bclose r0 s0 = Completed r steps s"
    by (auto simp: runWithTunnel_def Tunnel_connect_def Let_def race_not_completed
             split: raced.splits)
  from race_proc [OF rc] have "proc s0 = pr1" by simp
  with teardown_proc [OF td] have "proc s = cleanup traps pr1" by simp
  with trap_then_cleanup [OF t] show ?thesis by simp
qed

lemma connected_run_not_connect_failed:
  "runWithTunnel pr (Inr bt) bclose options evs \<noteq> ConnectFailed e pr'"
  by (auto simp: runWithTunnel_def Tunnel_connect_def Let_def race_not_connect_failed
        teardown_not_connect_failed split: raced.splits prod.splits)

section \<open>The claims\<close>

text \<open>
  Claim C1, as amended. In every run of \<^verbatim>\<open>runWithTunnel\<close> whose race settles, the
  \<^verbatim>\<open>finally\<close> phase runs its three steps as plain statements in the order restore
  signal handlers, close the tunnel, kill the child, with no error handling around any
  of them. The signal handlers are always restored and \<^verbatim>\<open>tunnel.close()\<close> is always
  called. If \<^verbatim>\<open>tunnel.close()\<close> throws, \<^verbatim>\<open>kill\<close> is not called, the child and the
  tunnel stay as the race left them, and the caller observes the thrown error instead
  of the outcome of the race. If \<^verbatim>\<open>tunnel.close()\<close> returns, \<^verbatim>\<open>kill\<close> is called; an
  exception of \<^verbatim>\<open>kill\<close> replaces the outcome of the race in the same way, and the
  caller observes the outcome of the race only if \<^verbatim>\<open>kill\<close> returns.
\<close>

theorem finally_phase_of_run:
  assumes "try_block pr bt options evs = Settled r s"
  shows "final_listeners (runWithTunnel pr (Inr bt) bclose options evs)
           = Some (filter (\<lambda>sl. fst sl \<noteq> ''SIGINT'') (sig_listeners pr)) \<and>
         (\<forall>e. Tunnel_close bclose (tun s) = Inl e \<longrightarrow>
              outcome (runWithTunnel pr (Inr bt) bclose options evs) = Some (Inl e) \<and>
              final_tunnel (runWithTunnel pr (Inr bt) bclose options evs) = Some (tun s) \<and>
              final_child (runWithTunnel pr (Inr bt) bclose options evs) = Some (psql s) \<and>
              attempted (runWithTunnel pr (Inr bt) bclose options evs)
                = [RestoreSignals, CloseTunnel]) \<and>
         (\<forall>h. Tunnel_close bclose (tun s) = Inr h \<longrightarrow>
              final_tunnel (runWithTunnel pr (Inr bt) bclose options evs) = Some h \<and>
              outcome (runWithTunnel pr (Inr bt) bclose options evs)
                = Some (case kill (psql s) ''SIGKILL'' of Inl e \<Rightarrow> Inl e | Inr cp \<Rightarrow> r) \<and>
              final_child (runWithTunnel pr (Inr bt) bclose options evs)
                = Some (case kill (psql s) ''SIGKILL'' of Inl e \<Rightarrow> psql s | Inr cp \<Rightarrow> cp) \<and>
              attempted (runWithTunnel pr (Inr bt) bclose options evs)
                = [RestoreSignals, CloseTunnel, KillChild])"
proof -
  let ?traps = "fst (trapAndForwardSignalsToChildProcess pr)"
  have run: "runWithTunnel pr (Inr bt) bclose options evs = teardown ?traps bclose r s"
    using assms by (simp add: run_after_try_block)
  have pr1: "proc s = snd (trapAndForwardSignalsToChildProcess pr)"
    using assms by (rule try_block_proc)
  have cl: "sig_listeners (cleanup ?traps (proc s))
              = filter (\<lambda>sl. fst sl \<noteq> ''SIGINT'') (sig_listeners pr)"
    unfolding pr1 by (rule trap_then_cleanup) simp
  have 1: "final_listeners (teardown ?traps bclose r s)
             = Some (filter (\<lambda>sl. fst sl \<noteq> ''SIGINT'') (sig_listeners pr))"
    using cl by (simp add: teardown_def final_listeners_def Let_def split: sum.splits)
  have 2: "\<forall>e. Tunnel_close bclose (tun s) = Inl e \<longrightarrow>
              outcome (teardown ?traps bclose r s) = Some (Inl e) \<and>
              final_tunnel (teardown ?traps bclose r s) = Some (tun s) \<and>
              final_child (teardown ?traps bclose r s) = Some (psql s) \<and>
              attempted (teardown ?traps bclose r s) = [RestoreSignals, CloseTunnel]"
    by (simp add: teardown_def outcome_def final_tunnel_def final_child_def attempted_def
          Let_def)
  have 3: "\<forall>h. Tunnel_close bclose (tun s) = Inr h \<longrightarrow>
              final_tunnel (teardown ?traps bclose r s) = Some h \<and>
              outcome (teardown ?traps bclose r s)
                = Some (case kill (psql s) ''SIGKILL'' of Inl e \<Rightarrow> Inl e | Inr cp \<Rightarrow> r) \<and>
              final_child (teardown ?traps bclose r s)
                = Some (case kill (psql s) ''SIGKILL'' of Inl e \<Rightarrow> psql s | Inr cp \<Rightarrow> cp) \<and>
              attempted (teardown ?traps bclose r s)
                = [RestoreSignals, CloseTunnel, KillChild]"
    by (simp add: teardown_def outcome_def final_tunnel_def final_child_def attempted_def
          Let_def split: sum.splits)
  from 1 2 3 show ?thesis unfolding run by blast
qed

text \<open>The theorem at a run with a bastion tunnel in which a signal with a foreign
  listener arrives and then the spawn of the child fails for lack of permission, so
  that the race is rejected: once with a tunnel whose \<^verbatim>\<open>close\<close> throws, once with
  one whose \<^verbatim>\<open>close\<close> returns.\<close>

theorem finally_phase_of_run_witness:
  "try_block sample_process (Some 0) sample_options
       [Signal ''SIGTERM'', Child (ChildError eacces)]
     = Settled (Inl eacces)
         \<lparr>proc = \<lparr>sig_listeners = [(''SIGTERM'', Foreign 1),
                                   (''SIGINT'', Forwarder 7 ''SIGINT'')],
                  next_fn = 8\<rparr>,
          psql = \<lparr>spawnfile = ''psql'',
                  spawnargs = [''-c'', ''select 1'', ''--set'', ''sslmode=require''],
                  killed = False, alive = False, delivered = []\<rparr>,
          tun = \<lparr>tunnel = \<lparr>bastionTunnel = Some \<lparr>transport = 0 :: nat, close_waiters = [0]\<rparr>,
                           events = []\<rparr>,
                 promises = [Pending]\<rparr>\<rparr> \<and>
   final_listeners (runWithTunnel sample_process (Inr (Some 0)) failing_close sample_options
                      [Signal ''SIGTERM'', Child (ChildError eacces)])
     = Some [(''SIGTERM'', Foreign 1)] \<and>
   outcome (runWithTunnel sample_process (Inr (Some 0)) failing_close sample_options
              [Signal ''SIGTERM'', Child (ChildError eacces)])
     = Some (Inl (new_Error ''boom'')) \<and>
   final_child (runWithTunnel sample_process (Inr (Some 0)) failing_close sample_options
                  [Signal ''SIGTERM'', Child (ChildError eacces)])
     = Some \<lparr>spawnfile = ''psql'',
             spawnargs = [''-c'', ''select 1'', ''--set'', ''sslmode=require''],
             killed = False, alive = False, delivered = []\<rparr> \<and>
   final_tunnel (runWithTunnel sample_process (Inr (Some 0)) counting_close sample_options
                   [Signal ''SIGTERM'', Child (ChildError eacces)])
     = Some \<lparr>tunnel = \<lparr>bastionTunnel = Some \<lparr>transport = 1 :: nat, close_waiters = [0]\<rparr>,
                        events = []\<rparr>,
             promises = [Pending]\<rparr> \<and>
   outcome (runWithTunnel sample_process (Inr (Some 0)) counting_close sample_options
              [Signal ''SIGTERM'', Child (ChildError eacces)])
     = Some (Inl (JsError ''ReferenceError'' ''psql is not defined'' None))"
proof -
  let ?s = "\<lparr>proc = \<lparr>sig_listeners = [(''SIGTERM'', Foreign 1),
                                   (''SIGINT'', Forwarder 7 ''SIGINT'')],
                  next_fn = 8\<rparr>,
          psql = \<lparr>spawnfile = ''psql'',
                  spawnargs = [''-c'', ''select 1'', ''--set'', ''sslmode=require''],
                  killed = False, alive = False, delivered = []\<rparr>,
          tun = \<lparr>tunnel = \<lparr>bastionTunnel = Some \<lparr>transport = 0 :: nat, close_waiters = [0]\<rparr>,
                           events = []\<rparr>,
                 promises = [Pending]\<rparr>\<rparr>"
  have a: "try_block sample_process (Some 0) sample_options
             [Signal ''SIGTERM'', Child (ChildError eacces)] = Settled (Inl eacces) ?s"
    by (simp add: try_block_def sample_process_def sample_options_def psqlQueryOptions_def
          eacces_def waitForPSQLExit_def once_child_def run_defs Let_def)
  have b: "Tunnel_close failing_close (tun ?s) = Inl (new_Error ''boom'')"
    by (simp add: Tunnel_close_def failing_close_def)
  have c: "Tunnel_close counting_close (tun ?s)
             = Inr \<lparr>tunnel = \<lparr>bastionTunnel = Some \<lparr>transport = 1 :: nat, close_waiters = [0]\<rparr>,
                              events = []\<rparr>,
                   promises = [Pending]\<rparr>"
    by (simp add: Tunnel_close_def counting_close_def)
  have d: "kill (psql ?s) ''SIGKILL''
             = Inl (JsError ''ReferenceError'' ''psql is not defined'' None)"
    by (simp add: kill_not_killed)
  have l: "filter (\<lambda>sl. fst sl \<noteq> ''SIGINT'') (sig_listeners sample_process)
             = [(''SIGTERM'', Foreign 1)]"
    by (simp add: sample_process_def)
  from finally_phase_of_run [OF a, of failing_close] b l
  have 1: "final_listeners (runWithTunnel sample_process (Inr (Some 0)) failing_close
                              sample_options [Signal ''SIGTERM'', Child (ChildError eacces)])
             = Some [(''SIGTERM'', Foreign 1)] \<and>
           outcome (runWithTunnel sample_process (Inr (Some 0)) failing_close sample_options
                      [Signal ''SIGTERM'', Child (ChildError eacces)])
             = Some (Inl (new_Error ''boom'')) \<and>
           final_child (runWithTunnel sample_process (Inr (Some 0)) failing_close
                          sample_options [Signal ''SIGTERM'', Child (ChildError eacces)])
             = Some (psql ?s)"
    by simp
  from finally_phase_of_run [OF a, of counting_close] c d
  have 2: "final_tunnel (runWithTunnel sample_process (Inr (Some 0)) counting_close
                           sample_options [Signal ''SIGTERM'', Child (ChildError eacces)])
             = Some \<lparr>tunnel = \<lparr>bastionTunnel = Some \<lparr>transport = 1 :: nat,
                                                      close_waiters = [0]\<rparr>,
                                events = []\<rparr>,
                     promises = [Pending]\<rparr> \<and>
           outcome (runWithTunnel sample_process (Inr (Some 0)) counting_close sample_options
                      [Signal ''SIGTERM'', Child (ChildError eacces)])
             = Some (Inl (JsError ''ReferenceError'' ''psql is not defined'' None))"
    by simp
  from a 1 2 show ?thesis by simp
qed

text \<open>The claim as stated fails. In this run the child exits with code 0 and the race
  resolves; the tunnel's \<^verbatim>\<open>close\<close> throws; the caller observes the error of
  \<^verbatim>\<open>close\<close> instead of the resolved race, and the child is left as the race left it,
  without a signal. In the same run with a \<^verbatim>\<open>close\<close> that returns, \<^verbatim>\<open>kill\<close> is
  reached, as its exception shows.\<close>

theorem teardown_close_throws_counterexample:
  "try_block sample_process (Some 0) sample_options [Child (ChildClose (JNum 0) JNull)]
     = Settled (Inr ())
         \<lparr>proc = \<lparr>sig_listeners = [(''SIGTERM'', Foreign 1),
                                   (''SIGINT'', Forwarder 7 ''SIGINT'')],
                  next_fn = 8\<rparr>,
          psql = \<lparr>spawnfile = ''psql'',
                  spawnargs = [''-c'', ''select 1'', ''--set'', ''sslmode=require''],
                  killed = False, alive = False, delivered = []\<rparr>,
          tun = \<lparr>tunnel = \<lparr>bastionTunnel = Some \<lparr>transport = 0 :: nat, close_waiters = [0]\<rparr>,
                           events = []\<rparr>,
                 promises = [Pending]\<rparr>\<rparr> \<and>
   outcome (runWithTunnel sample_process (Inr (Some 0)) failing_close sample_options
              [Child (ChildClose (JNum 0) JNull)])
     = Some (Inl (JsError ''Error'' ''boom'' None)) \<and>
   attempted (runWithTunnel sample_process (Inr (Some 0)) failing_close sample_options
                [Child (ChildClose (JNum 0) JNull)])
     = [RestoreSignals, CloseTunnel] \<and>
   final_child (runWithTunnel sample_process (Inr (Some 0)) failing_close sample_options
                  [Child (ChildClose (JNum 0) JNull)])
     = Some \<lparr>spawnfile = ''psql'',
             spawnargs = [''-c'', ''select 1'', ''--set'', ''sslmode=require''],
             killed = False, alive = False, delivered = []\<rparr> \<and>
   outcome (runWithTunnel sample_process (Inr (Some 0)) counting_close sample_options
              [Child (ChildClose (JNum 0) JNull)])
     = Some (Inl (JsError ''ReferenceError'' ''psql is not defined'' None))"
  by (simp add: waitForPSQLExit_close try_block_def final_child_def run_defs failing_close_def
        counting_close_def sample_process_def sample_options_def psqlQueryOptions_def Let_def)

text \<open>
  Claim C2. A child that was spawned and exits with a non-zero code \<open>n\<close> should make
  \<^verbatim>\<open>waitForPSQLExit\<close> reject with an error that reports \<open>n\<close>. The code binds the
  whole array \<^verbatim>\<open>[code, signal]\<close> to \<^verbatim>\<open>exitCode\<close>; the array converts to the string
  \<^verbatim>\<open>"2,"\<close>, which is not a number, so the comparison with 0 is false and the wait
  resolves: at exit code 2 no error is raised.
\<close>

theorem waitForPSQLExit_code_2_resolves:
  "waitForPSQLExit (once_child (ChildClose (JNum 2) JNull)) = Inr ()"
  by code_simp

text \<open>
  Claim C3. \<^verbatim>\<open>kill\<close> on a handle whose process has already ended should deliver no
  signal and raise no error. For a child that ended by itself the \<^verbatim>\<open>killed\<close> flag is
  false, the guarded branch is entered, and its first statement calls the unbound
  identifier \<^verbatim>\<open>psql\<close>: the call raises \<^verbatim>\<open>ReferenceError\<close>.
\<close>

theorem kill_exited_child_raises:
  "kill \<lparr>spawnfile = ''psql'', spawnargs = [], killed = False, alive = False, delivered = []\<rparr>
        ''SIGKILL''
     = Inl (JsError ''ReferenceError'' ''psql is not defined'' None)"
  by (simp add: kill_def resolve_call_def module_bindings_def)

text \<open>
  Claim C4, as amended. \<^verbatim>\<open>trapAndForwardSignalsToChildProcess\<close> removes every listener
  of \<^verbatim>\<open>SIGINT\<close> and installs its forwarder as the only one; the cleanup it returns
  removes that forwarder and registers nothing again. A run whose tunnel fails to
  connect leaves the listeners as they were. After every other run that completes, the
  listeners are those from before the run without the ones of \<^verbatim>\<open>SIGINT\<close>: the
  forwarder is gone, and the state equals the state before the run exactly when no
  \<^verbatim>\<open>SIGINT\<close> listener was registered before.
\<close>

theorem listeners_after_run:
  "listeners_of ''SIGINT'' (snd (trapAndForwardSignalsToChildProcess pr))
     = [Forwarder (next_fn pr) ''SIGINT''] \<and>
   sig_listeners (cleanup (fst (trapAndForwardSignalsToChildProcess pr))
                          (snd (trapAndForwardSignalsToChildProcess pr)))
     = filter (\<lambda>sl. fst sl \<noteq> ''SIGINT'') (sig_listeners pr) \<and>
   final_listeners (runWithTunnel pr (Inl e) bclose options evs) = Some (sig_listeners pr) \<and>
   (\<forall>ls. final_listeners (runWithTunnel pr (Inr bt) bclose options evs) = Some ls \<longrightarrow>
        ls = filter (\<lambda>sl. fst sl \<noteq> ''SIGINT'') (sig_listeners pr) \<and>
        filter (\<lambda>sl. fst sl = ''SIGINT'') ls = [] \<and>
        (ls = sig_listeners pr) = (listeners_of ''SIGINT'' pr = []))"
proof (intro conjI allI impI)
  show "listeners_of ''SIGINT'' (snd (trapAndForwardSignalsToChildProcess pr))
          = [Forwarder (next_fn pr) ''SIGINT'']"
    by (simp add: trapAndForwardSignalsToChildProcess_def signalsToTrap_def Let_def
          listeners_of_def removeAllListeners_def process_on_def filter_empty_conv)
next
  show "sig_listeners (cleanup (fst (trapAndForwardSignalsToChildProcess pr))
                               (snd (trapAndForwardSignalsToChildProcess pr)))
          = filter (\<lambda>sl. fst sl \<noteq> ''SIGINT'') (sig_listeners pr)"
    by (rule trap_then_cleanup) simp
next
  show "final_listeners (runWithTunnel pr (Inl e) bclose options evs) = Some (sig_listeners pr)"
    by (simp add: runWithTunnel_def Tunnel_connect_def final_listeners_def)
next
  fix ls
  assume a: "final_listeners (runWithTunnel pr (Inr bt) bclose options evs) = Some ls"
  then obtain r steps s where
    c: "runWithTunnel pr (Inr bt) bclose options evs = Completed r steps s"
    and l: "ls = sig_listeners (proc s)"
    by (auto simp: final_listeners_def connected_run_not_connect_failed split: run.splits)
  from completed_listeners [OF c] l
  have eq: "ls = filter (\<lambda>sl. fst sl \<noteq> ''SIGINT'') (sig_listeners pr)" by simp
  show "ls = filter (\<lambda>sl. fst sl \<noteq> ''SIGINT'') (sig_listeners pr)" by (rule eq)
  show "filter (\<lambda>sl. fst sl = ''SIGINT'') ls = []"
    by (simp add: eq filter_empty_conv)
  show "(ls = sig_listeners pr) = (listeners_of ''SIGINT'' pr = [])"
    by (simp add: eq listeners_of_def filter_empty_conv filter_id_conv)
qed

text \<open>The theorem at a run without bastion in which the child exits: the listener of
  \<^verbatim>\<open>SIGTERM\<close> is all that remains.\<close>

theorem listeners_after_run_witness:
  "final_listeners (runWithTunnel sample_process (Inr None) counting_close sample_options
                      [Signal ''SIGTERM'', Child (ChildClose (JNum 0) JNull)])
     = Some [(''SIGTERM'', Foreign 1)] \<and>
   [(''SIGTERM'', Foreign 1)]
     = filter (\<lambda>sl. fst sl \<noteq> ''SIGINT'') (sig_listeners sample_process) \<and>
   ([(''SIGTERM'', Foreign 1)] = sig_listeners sample_process)
     = (listeners_of ''SIGINT'' sample_process = [])"
proof -
  have a: "final_listeners (runWithTunnel sample_process (Inr None) counting_close sample_options
                      [Signal ''SIGTERM'', Child (ChildClose (JNum 0) JNull)])
             = Some [(''SIGTERM'', Foreign 1)]"
    by (simp add: waitForPSQLExit_close run_defs sample_process_def Let_def)
  from listeners_after_run [of sample_process _ counting_close sample_options
         "[Signal ''SIGTERM'', Child (ChildClose (JNum 0) JNull)]" None] a
  show ?thesis by blast
qed

text \<open>The claim as stated fails: a listener of \<^verbatim>\<open>SIGINT\<close> that was registered before
  the run is not there after it.\<close>

theorem listeners_after_run_counterexample:
  "sig_listeners sample_process = [(''SIGINT'', Foreign 0), (''SIGTERM'', Foreign 1)] \<and>
   final_listeners (runWithTunnel sample_process (Inr None) counting_close sample_options
                      [Child (ChildClose (JNum 0) JNull)])
     = Some [(''SIGTERM'', Foreign 1)] \<and>
   final_listeners (runWithTunnel sample_process (Inr None) counting_close sample_options
                      [Child (ChildClose (JNum 0) JNull)])
     \<noteq> Some (sig_listeners sample_process)"
  by (simp add: waitForPSQLExit_close run_defs sample_process_def Let_def)

text \<open>
  Claim C5. For a tunnel constructed without bastion tunnel, the promise of
  \<^verbatim>\<open>waitForClose()\<close> stays pending along every sequence of further waits and
  transport events that contains no \<^verbatim>\<open>close()\<close>; then one \<^verbatim>\<open>close()\<close> succeeds
  whatever the tunnel library's \<^verbatim>\<open>close\<close> would do (it is not called), fulfils the
  promise, removes the subscription, leaves the handle without bastion tunnel, and a
  further \<^verbatim>\<open>close()\<close> changes nothing.
\<close>

theorem synthetic_waitForClose_until_close:
  assumes "bastionTunnel (tunnel h) = None"
    and "Tunnel_waitForClose h = (p, h1)"
    and "Close \<notin> set ops"
  shows "promises (tunnel_steps bclose ops h1) ! p = Pending \<and>
         (\<exists>h2. Tunnel_close bclose (tunnel_steps bclose ops h1) = Inr h2 \<and>
               promises h2 ! p = Fulfilled () \<and> events (tunnel h2) = [] \<and>
               bastionTunnel (tunnel h2) = None \<and> Tunnel_close bclose h2 = Inr h2)"
proof -
  let ?h = "tunnel_steps bclose ops h1"
  have inv: "synthetic_pending p ?h"
    using assms by (simp add: synthetic_pending_wait synthetic_pending_steps)
  then have none: "bastionTunnel (tunnel ?h) = None" and mem: "p \<in> set (events (tunnel ?h))"
    and len: "p < length (promises ?h)" and pend: "promises ?h ! p = Pending"
    by (simp_all add: synthetic_pending_def)
  from synthetic_close [OF none, of bclose] obtain h2 where
    c: "Tunnel_close bclose ?h = Inr h2" "events (tunnel h2) = []"
       "bastionTunnel (tunnel h2) = None"
       "\<forall>i < length (promises ?h). promises h2 ! i =
               (if i \<in> set (events (tunnel ?h)) then settle (Fulfilled ()) (promises ?h ! i)
                else promises ?h ! i)"
       "Tunnel_close bclose h2 = Inr h2"
    by blast
  from c(4) len mem pend have "promises h2 ! p = Fulfilled ()"
    by (simp add: settle_def)
  with c pend show ?thesis by simp
qed

text \<open>The theorem at a fresh tunnel without bastion, with a second wait and two
  transport events before the close, and a library \<^verbatim>\<open>close\<close> that would throw.\<close>

theorem synthetic_waitForClose_until_close_witness:
  "bastionTunnel (tunnel (Tunnel_new None)) = (None :: nat bastion_tunnel option) \<and>
   Tunnel_waitForClose (Tunnel_new None)
     = (0, \<lparr>tunnel = \<lparr>bastionTunnel = (None :: nat bastion_tunnel option), events = [0]\<rparr>,
            promises = [Pending]\<rparr>) \<and>
   Close \<notin> set [WaitForClose, TransportClose, TransportError enoent] \<and>
   promises (tunnel_steps failing_close [WaitForClose, TransportClose, TransportError enoent]
              \<lparr>tunnel = \<lparr>bastionTunnel = None, events = [0]\<rparr>, promises = [Pending]\<rparr>) ! 0
     = Pending \<and>
   (\<exists>h2. Tunnel_close failing_close
           (tunnel_steps failing_close [WaitForClose, TransportClose, TransportError enoent]
              \<lparr>tunnel = \<lparr>bastionTunnel = None, events = [0]\<rparr>, promises = [Pending]\<rparr>) = Inr h2 \<and>
         promises h2 ! 0 = Fulfilled () \<and> events (tunnel h2) = [] \<and>
         bastionTunnel (tunnel h2) = None \<and> Tunnel_close failing_close h2 = Inr h2)"
proof -
  have a: "bastionTunnel (tunnel (Tunnel_new None)) = (None :: nat bastion_tunnel option)"
    by (simp add: Tunnel_new_def)
  have b: "Tunnel_waitForClose (Tunnel_new None)
     = (0, \<lparr>tunnel = \<lparr>bastionTunnel = (None :: nat bastion_tunnel option), events = [0]\<rparr>,
            promises = [Pending]\<rparr>)"
    by (simp add: Tunnel_new_def Tunnel_waitForClose_def)
  have c: "Close \<notin> set [WaitForClose, TransportClose, TransportError enoent]"
    by simp
  from synthetic_waitForClose_until_close [OF a b c, of failing_close] a b c
  show ?thesis by blast
qed

text \<open>
  Claim C6, as amended. For a handle without bastion tunnel a second \<^verbatim>\<open>close()\<close>
  leaves the state that the first one produced. For a handle with a bastion tunnel the
  wrapper keeps no record of being closed: each \<^verbatim>\<open>close()\<close> calls the tunnel library's
  \<^verbatim>\<open>close\<close> again, so the second call changes nothing exactly when the library's
  \<^verbatim>\<open>close\<close> changes nothing on a transport it has already closed.
\<close>

theorem close_twice:
  "(bastionTunnel (tunnel h) = None \<longrightarrow>
      (\<exists>h1. Tunnel_close bclose h = Inr h1 \<and> Tunnel_close bclose h1 = Inr h1)) \<and>
   (bastionTunnel (tunnel h) = Some bt \<and> bclose (transport bt) = Inr tr \<longrightarrow>
      (\<exists>h1. Tunnel_close bclose h = Inr h1 \<and>
            (Tunnel_close bclose h1 = Inr h1) = (bclose tr = Inr tr)))"
proof (intro conjI impI)
  assume "bastionTunnel (tunnel h) = None"
  from synthetic_close [OF this, of bclose]
  show "\<exists>h1. Tunnel_close bclose h = Inr h1 \<and> Tunnel_close bclose h1 = Inr h1" by blast
next
  assume a: "bastionTunnel (tunnel h) = Some bt \<and> bclose (transport bt) = Inr tr"
  show "\<exists>h1. Tunnel_close bclose h = Inr h1 \<and>
            (Tunnel_close bclose h1 = Inr h1) = (bclose tr = Inr tr)"
  proof -
    from a have b: "bastionTunnel (tunnel h) = Some bt" and c: "bclose (transport bt) = Inr tr"
      by simp_all
    let ?h1 = "h\<lparr>tunnel := (tunnel h)\<lparr>bastionTunnel := Some (bt\<lparr>transport := tr\<rparr>)\<rparr>\<rparr>"
    have 1: "Tunnel_close bclose h = Inr ?h1"
      using b c by (simp add: Tunnel_close_def Let_def)
    have 2: "(Tunnel_close bclose ?h1 = Inr ?h1) = (bclose tr = Inr tr)"
    proof (cases "bclose tr")
      case (Inl e)
      then show ?thesis by (simp add: Tunnel_close_def Let_def)
    next
      case (Inr tr2)
      have "(bt\<lparr>transport := tr2\<rparr> = bt\<lparr>transport := tr\<rparr>) = (tr2 = tr)"
        by (cases bt) simp
      moreover have "((tunnel h)\<lparr>bastionTunnel := Some (bt\<lparr>transport := tr2\<rparr>)\<rparr>
                       = (tunnel h)\<lparr>bastionTunnel := Some (bt\<lparr>transport := tr\<rparr>)\<rparr>)
                     = (bt\<lparr>transport := tr2\<rparr> = bt\<lparr>transport := tr\<rparr>)"
        by (cases "tunnel h") simp
      moreover have
        "(h\<lparr>tunnel := (tunnel h)\<lparr>bastionTunnel := Some (bt\<lparr>transport := tr2\<rparr>)\<rparr>\<rparr> = ?h1)
           = ((tunnel h)\<lparr>bastionTunnel := Some (bt\<lparr>transport := tr2\<rparr>)\<rparr>
                = (tunnel h)\<lparr>bastionTunnel := Some (bt\<lparr>transport := tr\<rparr>)\<rparr>)"
        by (cases h) simp
      ultimately show ?thesis using Inr by (simp add: Tunnel_close_def Let_def)
    qed
    from 1 2 show ?thesis by blast
  qed
qed

text \<open>The theorem at a handle without bastion tunnel that has one pending wait, and at
  a handle whose transport counts the calls of its \<^verbatim>\<open>close\<close>.\<close>

theorem close_twice_witness:
  "bastionTunnel (tunnel (snd (Tunnel_waitForClose (Tunnel_new None))))
     = (None :: nat bastion_tunnel option) \<and>
   (\<exists>h1. Tunnel_close counting_close (snd (Tunnel_waitForClose (Tunnel_new None))) = Inr h1 \<and>
         Tunnel_close counting_close h1 = Inr h1) \<and>
   bastionTunnel (tunnel (Tunnel_new (Some 0)))
     = Some \<lparr>transport = 0 :: nat, close_waiters = []\<rparr> \<and>
   counting_close (transport \<lparr>transport = 0 :: nat, close_waiters = []\<rparr>) = Inr 1 \<and>
   (\<exists>h1. Tunnel_close counting_close (Tunnel_new (Some 0)) = Inr h1 \<and>
         (Tunnel_close counting_close h1 = Inr h1) = (counting_close 1 = Inr 1))"
proof -
  have a: "bastionTunnel (tunnel (snd (Tunnel_waitForClose (Tunnel_new None))))
             = (None :: nat bastion_tunnel option)"
    by (simp add: Tunnel_new_def Tunnel_waitForClose_def)
  have b: "bastionTunnel (tunnel (Tunnel_new (Some 0)))
             = Some \<lparr>transport = 0 :: nat, close_waiters = []\<rparr>"
    by (simp add: Tunnel_new_def)
  have c: "counting_close (transport \<lparr>transport = 0 :: nat, close_waiters = []\<rparr>) = Inr 1"
    by (simp add: counting_close_def)
  from close_twice [of "snd (Tunnel_waitForClose (Tunnel_new None))" counting_close] a
  have 1: "\<exists>h1. Tunnel_close counting_close (snd (Tunnel_waitForClose (Tunnel_new None))) = Inr h1 \<and>
         Tunnel_close counting_close h1 = Inr h1"
    by blast
  from close_twice [of "Tunnel_new (Some 0)" counting_close
                       "\<lparr>transport = 0 :: nat, close_waiters = []\<rparr>" 1] b c
  have 2: "\<exists>h1. Tunnel_close counting_close (Tunnel_new (Some 0)) = Inr h1 \<and>
         (Tunnel_close counting_close h1 = Inr h1) = (counting_close 1 = Inr 1)"
    by blast
  from a b c 1 2 show ?thesis by blast
qed

text \<open>The claim as stated fails for a handle with a bastion tunnel: on a transport
  that counts the calls of its \<^verbatim>\<open>close\<close>, two calls of \<^verbatim>\<open>close()\<close> leave another
  state than one call.\<close>

theorem close_twice_counterexample:
  "tunnel_steps counting_close [Close, Close] (Tunnel_new (Some 0))
     \<noteq> tunnel_steps counting_close [Close] (Tunnel_new (Some 0))"
  by (simp add: tunnel_steps_def Tunnel_new_def Tunnel_close_def counting_close_def)

text \<open>
  Claim C7. If the transport of a tunnel with bastion emits an error while the promise
  of \<^verbatim>\<open>waitForClose()\<close> is pending (further waits and calls of \<^verbatim>\<open>close()\<close> may lie
  in between), the promise is rejected with a new error whose message is
  \<^verbatim>\<open>Secure tunnel to your database failed\<close> and which carries nothing of the error
  of the transport.
\<close>

theorem transport_error_is_wrapped:
  assumes "bastionTunnel (tunnel h) = Some bt"
    and "Tunnel_waitForClose h = (p, h1)"
    and "list_all (\<lambda>op. op = WaitForClose \<or> op = Close) ops"
  shows "promises (tunnel_step bclose (TransportError err) (tunnel_steps bclose ops h1)) ! p
           = Rejected (JsError ''Error'' ''Secure tunnel to your database failed'' None)"
proof -
  have "bastion_pending p (tunnel_steps bclose ops h1)"
    using assms by (simp add: bastion_pending_wait bastion_pending_steps)
  then show ?thesis
    by (auto simp: bastion_pending_def transport_emits_def Let_def nth_settle_all settle_def
                   waitForClose_after_def tunnel_failed_def new_Error_def
             split: option.splits)
qed

text \<open>The theorem at a fresh tunnel with bastion, a second wait and a close before a
  connection reset.\<close>

theorem transport_error_is_wrapped_witness:
  "bastionTunnel (tunnel (Tunnel_new (Some 0)))
     = Some \<lparr>transport = 0 :: nat, close_waiters = []\<rparr> \<and>
   Tunnel_waitForClose (Tunnel_new (Some 0))
     = (0, \<lparr>tunnel = \<lparr>bastionTunnel = Some \<lparr>transport = 0 :: nat, close_waiters = [0]\<rparr>,
                      events = []\<rparr>,
            promises = [Pending]\<rparr>) \<and>
   list_all (\<lambda>op. op = WaitForClose \<or> op = Close) [WaitForClose, Close] \<and>
   promises (tunnel_step counting_close
               (TransportError (JsError ''Error'' ''read ECONNRESET'' (Some ''ECONNRESET'')))
               (tunnel_steps counting_close [WaitForClose, Close]
                  \<lparr>tunnel = \<lparr>bastionTunnel = Some \<lparr>transport = 0 :: nat, close_waiters = [0]\<rparr>,
                             events = []\<rparr>,
                   promises = [Pending]\<rparr>)) ! 0
     = Rejected (JsError ''Error'' ''Secure tunnel to your database failed'' None)"
proof -
  have a: "bastionTunnel (tunnel (Tunnel_new (Some 0)))
             = Some \<lparr>transport = 0 :: nat, close_waiters = []\<rparr>"
    by (simp add: Tunnel_new_def)
  have b: "Tunnel_waitForClose (Tunnel_new (Some 0))
     = (0, \<lparr>tunnel = \<lparr>bastionTunnel = Some \<lparr>transport = 0 :: nat, close_waiters = [0]\<rparr>,
                      events = []\<rparr>,
            promises = [Pending]\<rparr>)"
    by (simp add: Tunnel_new_def Tunnel_waitForClose_def)
  have c: "list_all (\<lambda>op. op = WaitForClose \<or> op = Close) [WaitForClose, Close]"
    by simp
  from transport_error_is_wrapped [OF a b c, of counting_close] a b c
  show ?thesis by blast
qed

text \<open>
  Claim C8. When the program \<^verbatim>\<open>psql\<close> cannot be found, the orchestration should fail
  with the install help. The wait for the child does turn the \<^verbatim>\<open>ENOENT\<close> error into
  the install help, but the \<^verbatim>\<open>finally\<close> phase then calls \<^verbatim>\<open>kill\<close> on a handle whose
  \<^verbatim>\<open>killed\<close> flag is false, and \<^verbatim>\<open>kill\<close> raises \<^verbatim>\<open>ReferenceError\<close>: that error is
  what the caller of \<^verbatim>\<open>runWithTunnel\<close> observes.
\<close>

theorem psql_not_found_run:
  "waitForPSQLExit (once_child (ChildError enoent)) = Inl (new_Error install_help) \<and>
   outcome (runWithTunnel pr (Inr None) bclose options [Child (ChildError enoent)])
     = Some (Inl (JsError ''ReferenceError'' ''psql is not defined'' None))"
  by (simp add: waitForPSQLExit_ENOENT enoent_def run_defs Let_def split: prod.splits)

text \<open>
  Claim C9, as amended. For a tunnel without bastion, a \<^verbatim>\<open>close()\<close> while no wait is
  subscribed leaves the tunnel as it was: the event is lost. The promise of a
  \<^verbatim>\<open>waitForClose()\<close> that starts afterwards is pending, and stays pending along every
  sequence of waits and transport events, until \<^verbatim>\<open>close()\<close> is called again: that
  call fulfils it.
\<close>

theorem synthetic_close_not_latched:
  assumes "bastionTunnel (tunnel h) = None"
    and "events (tunnel h) = []"
    and "Tunnel_waitForClose h = (p, h1)"
    and "Close \<notin> set ops"
  shows "Tunnel_close bclose h = Inr h \<and>
         promises h1 ! p = Pending \<and>
         promises (tunnel_steps bclose ops h1) ! p = Pending \<and>
         (\<exists>h2. Tunnel_close bclose (tunnel_steps bclose ops h1) = Inr h2 \<and>
               promises h2 ! p = Fulfilled ())"
proof -
  have "(tunnel h)\<lparr>events := []\<rparr> = tunnel h"
    using assms(2) by (cases "tunnel h") simp
  with assms(1,2) have eq: "Tunnel_close bclose h = Inr h"
    by (simp add: Tunnel_close_def Let_def)
  from assms(1,3) have w: "synthetic_pending p h1"
    by (rule synthetic_pending_wait)
  let ?h = "tunnel_steps bclose ops h1"
  from w assms(4) have inv: "synthetic_pending p ?h"
    by (rule synthetic_pending_steps)
  then have none: "bastionTunnel (tunnel ?h) = None" and mem: "p \<in> set (events (tunnel ?h))"
    and len: "p < length (promises ?h)" and pend: "promises ?h ! p = Pending"
    by (simp_all add: synthetic_pending_def)
  from synthetic_close [OF none, of bclose] obtain h2 where
    c: "Tunnel_close bclose ?h = Inr h2"
       "\<forall>i < length (promises ?h). promises h2 ! i =
               (if i \<in> set (events (tunnel ?h)) then settle (Fulfilled ()) (promises ?h ! i)
                else promises ?h ! i)"
    by blast
  from c(2) len mem pend have "promises h2 ! p = Fulfilled ()"
    by (simp add: settle_def)
  with c(1) eq w pend show ?thesis by (auto simp: synthetic_pending_def)
qed

text \<open>The theorem at a fresh tunnel without bastion: close, then wait, then two more
  waits and a transport event.\<close>

theorem synthetic_close_not_latched_witness:
  "bastionTunnel (tunnel (Tunnel_new None)) = (None :: nat bastion_tunnel option) \<and>
   events (tunnel (Tunnel_new None :: nat heap)) = [] \<and>
   Tunnel_waitForClose (Tunnel_new None)
     = (0, \<lparr>tunnel = \<lparr>bastionTunnel = (None :: nat bastion_tunnel option), events = [0]\<rparr>,
            promises = [Pending]\<rparr>) \<and>
   Close \<notin> set [WaitForClose, TransportClose, WaitForClose] \<and>
   Tunnel_close counting_close (Tunnel_new None) = Inr (Tunnel_new None) \<and>
   promises (tunnel_steps counting_close [WaitForClose, TransportClose, WaitForClose]
              \<lparr>tunnel = \<lparr>bastionTunnel = None, events = [0]\<rparr>, promises = [Pending]\<rparr>) ! 0
     = Pending \<and>
   (\<exists>h2. Tunnel_close counting_close
           (tunnel_steps counting_close [WaitForClose, TransportClose, WaitForClose]
              \<lparr>tunnel = \<lparr>bastionTunnel = None, events = [0]\<rparr>, promises = [Pending]\<rparr>) = Inr h2 \<and>
         promises h2 ! 0 = Fulfilled ())"
proof -
  have a: "bastionTunnel (tunnel (Tunnel_new None)) = (None :: nat bastion_tunnel option)"
    by (simp add: Tunnel_new_def)
  have b: "events (tunnel (Tunnel_new None :: nat heap)) = []"
    by (simp add: Tunnel_new_def)
  have d: "Tunnel_waitForClose (Tunnel_new None)
     = (0, \<lparr>tunnel = \<lparr>bastionTunnel = (None :: nat bastion_tunnel option), events = [0]\<rparr>,
            promises = [Pending]\<rparr>)"
    by (simp add: Tunnel_new_def Tunnel_waitForClose_def)
  have e: "Close \<notin> set [WaitForClose, TransportClose, WaitForClose]"
    by simp
  from synthetic_close_not_latched [OF a b d e, of counting_close] a b d e
  show ?thesis by blast
qed

text \<open>The claim as stated fails: the wait that starts after the lost close does not
  suspend forever. It is pending after the wait, and the next \<^verbatim>\<open>close()\<close> fulfils
  it.\<close>

theorem synthetic_close_not_latched_counterexample:
  "fst (Tunnel_waitForClose (tunnel_steps counting_close [Close] (Tunnel_new None))) = 0 \<and>
   promises (tunnel_steps counting_close [Close, WaitForClose] (Tunnel_new None)) ! 0 = Pending \<and>
   promises (tunnel_steps counting_close [Close, WaitForClose, Close] (Tunnel_new None)) ! 0
     = Fulfilled ()"
  by (simp add: tunnel_steps_def Tunnel_new_def Tunnel_close_def Tunnel_waitForClose_def
        settle_all_def settle_def waitForClose_after_def)

text \<open>
  Claim C10, as amended. In interactive mode the child is spawned with the arguments
  that \<^verbatim>\<open>psqlInteractiveOptions\<close> returns. If \<^verbatim>\<open>HEROKU_PSQL_HISTORY\<close> is unset or
  empty, no \<^verbatim>\<open>HISTFILE\<close> is passed and nothing is warned. If it is a non-empty path
  \<open>p\<close>: when \<open>p\<close> names an existing directory, \<^verbatim>\<open>HISTFILE\<close> is \<open>p\<close>, a slash, and
  the prompt up to its first colon; otherwise, when the parent path of \<open>p\<close> exists,
  \<^verbatim>\<open>HISTFILE\<close> is \<open>p\<close>; otherwise one warning is emitted and the arguments are the two
  prompts and the SSL mode only.
\<close>

theorem history_file_option:
  "psqlInteractiveOptions None fs prompt env = psqlInteractiveOptions (Some []) fs prompt env \<and>
   psqlArgs (fst (psqlInteractiveOptions None fs prompt env))
     = [''--set'', ''PROMPT1='' @ prompt, ''--set'', ''PROMPT2='' @ prompt,
        ''--set'', ''sslmode=require''] \<and>
   snd (psqlInteractiveOptions None fs prompt env) = [] \<and>
   spawnargs (execPSQL (fst (psqlInteractiveOptions history fs prompt env)))
     = psqlArgs (fst (psqlInteractiveOptions history fs prompt env)) \<and>
   (p \<noteq> [] \<and> existsSync fs p \<and> isDirectory fs p \<longrightarrow>
      psqlArgs (fst (psqlInteractiveOptions (Some p) fs prompt env))
        = [''--set'', ''PROMPT1='' @ prompt, ''--set'', ''PROMPT2='' @ prompt,
           ''--set'', ''HISTFILE='' @ p @ ''/'' @ takeWhile (\<lambda>c. c \<noteq> CHR '':'') prompt,
           ''--set'', ''sslmode=require''] \<and>
      snd (psqlInteractiveOptions (Some p) fs prompt env) = []) \<and>
   (p \<noteq> [] \<and> \<not> (existsSync fs p \<and> isDirectory fs p) \<and> existsSync fs (dirname p) \<longrightarrow>
      psqlArgs (fst (psqlInteractiveOptions (Some p) fs prompt env))
        = [''--set'', ''PROMPT1='' @ prompt, ''--set'', ''PROMPT2='' @ prompt,
           ''--set'', ''HISTFILE='' @ p, ''--set'', ''sslmode=require''] \<and>
      snd (psqlInteractiveOptions (Some p) fs prompt env) = []) \<and>
   (p \<noteq> [] \<and> \<not> (existsSync fs p \<and> isDirectory fs p) \<and> \<not> existsSync fs (dirname p) \<longrightarrow>
      psqlArgs (fst (psqlInteractiveOptions (Some p) fs prompt env))
        = [''--set'', ''PROMPT1='' @ prompt, ''--set'', ''PROMPT2='' @ prompt,
           ''--set'', ''sslmode=require''] \<and>
      snd (psqlInteractiveOptions (Some p) fs prompt env)
        = [''HEROKU_PSQL_HISTORY is set but is not a valid path ('' @ p @ '')''])"
  by (simp add: psqlInteractiveOptions_def execPSQL_def Let_def split: prod.splits)

text \<open>The theorem at a home directory: the variable names the directory, a file to be
  created in it, and a path whose parent does not exist.\<close>

theorem history_file_option_witness:
  "(''/home/u'' \<noteq> [] \<and> existsSync home_fs ''/home/u'' \<and> isDirectory home_fs ''/home/u'') \<and>
   psqlArgs (fst (psqlInteractiveOptions (Some ''/home/u'') home_fs ''myapp::DATABASE%R%# '' []))
     = [''--set'', ''PROMPT1=myapp::DATABASE%R%# '', ''--set'', ''PROMPT2=myapp::DATABASE%R%# '',
        ''--set'', ''HISTFILE=/home/u/myapp'', ''--set'', ''sslmode=require''] \<and>
   (''/home/u/hist'' \<noteq> [] \<and>
    \<not> (existsSync home_fs ''/home/u/hist'' \<and> isDirectory home_fs ''/home/u/hist'') \<and>
    existsSync home_fs (dirname ''/home/u/hist'')) \<and>
   psqlArgs (fst (psqlInteractiveOptions (Some ''/home/u/hist'') home_fs ''myapp::DATABASE%R%# '' []))
     = [''--set'', ''PROMPT1=myapp::DATABASE%R%# '', ''--set'', ''PROMPT2=myapp::DATABASE%R%# '',
        ''--set'', ''HISTFILE=/home/u/hist'', ''--set'', ''sslmode=require''] \<and>
   (''/nowhere/hist'' \<noteq> [] \<and>
    \<not> (existsSync home_fs ''/nowhere/hist'' \<and> isDirectory home_fs ''/nowhere/hist'') \<and>
    \<not> existsSync home_fs (dirname ''/nowhere/hist'')) \<and>
   psqlArgs (fst (psqlInteractiveOptions (Some ''/nowhere/hist'') home_fs ''myapp::DATABASE%R%# '' []))
     = [''--set'', ''PROMPT1=myapp::DATABASE%R%# '', ''--set'', ''PROMPT2=myapp::DATABASE%R%# '',
        ''--set'', ''sslmode=require''] \<and>
   snd (psqlInteractiveOptions (Some ''/nowhere/hist'') home_fs ''myapp::DATABASE%R%# '' [])
     = [''HEROKU_PSQL_HISTORY is set but is not a valid path (/nowhere/hist)'']"
proof -
  have d2: "dirname ''/home/u/hist'' = ''/home/u''" by code_simp
  have d3: "dirname ''/nowhere/hist'' = ''/nowhere''" by code_simp
  have a: "''/home/u'' \<noteq> [] \<and> existsSync home_fs ''/home/u'' \<and> isDirectory home_fs ''/home/u''"
    by (simp add: home_fs_def existsSync_def isDirectory_def)
  have b: "''/home/u/hist'' \<noteq> [] \<and>
    \<not> (existsSync home_fs ''/home/u/hist'' \<and> isDirectory home_fs ''/home/u/hist'') \<and>
    existsSync home_fs (dirname ''/home/u/hist'')"
    by (simp add: d2 home_fs_def existsSync_def isDirectory_def)
  have c: "''/nowhere/hist'' \<noteq> [] \<and>
    \<not> (existsSync home_fs ''/nowhere/hist'' \<and> isDirectory home_fs ''/nowhere/hist'') \<and>
    \<not> existsSync home_fs (dirname ''/nowhere/hist'')"
    by (simp add: d3 home_fs_def existsSync_def isDirectory_def)
  from history_file_option [of home_fs "''myapp::DATABASE%R%# ''" "[]" _ "''/home/u''"] a
  have 1: "psqlArgs (fst (psqlInteractiveOptions (Some ''/home/u'') home_fs ''myapp::DATABASE%R%# '' []))
     = [''--set'', ''PROMPT1=myapp::DATABASE%R%# '', ''--set'', ''PROMPT2=myapp::DATABASE%R%# '',
        ''--set'', ''HISTFILE=/home/u/myapp'', ''--set'', ''sslmode=require'']"
    by simp
  from history_file_option [of home_fs "''myapp::DATABASE%R%# ''" "[]" _ "''/home/u/hist''"] b
  have 2: "psqlArgs (fst (psqlInteractiveOptions (Some ''/home/u/hist'') home_fs ''myapp::DATABASE%R%# '' []))
     = [''--set'', ''PROMPT1=myapp::DATABASE%R%# '', ''--set'', ''PROMPT2=myapp::DATABASE%R%# '',
        ''--set'', ''HISTFILE=/home/u/hist'', ''--set'', ''sslmode=require'']"
    by simp
  from history_file_option [of home_fs "''myapp::DATABASE%R%# ''" "[]" _ "''/nowhere/hist''"] c
  have 3: "psqlArgs (fst (psqlInteractiveOptions (Some ''/nowhere/hist'') home_fs ''myapp::DATABASE%R%# '' []))
     = [''--set'', ''PROMPT1=myapp::DATABASE%R%# '', ''--set'', ''PROMPT2=myapp::DATABASE%R%# '',
        ''--set'', ''sslmode=require''] \<and>
   snd (psqlInteractiveOptions (Some ''/nowhere/hist'') home_fs ''myapp::DATABASE%R%# '' [])
     = [''HEROKU_PSQL_HISTORY is set but is not a valid path (/nowhere/hist)'']"
    by simp
  from a b c 1 2 3 show ?thesis by blast
qed

text \<open>The claim as stated fails when the variable is set to the empty string: the
  empty path names no directory and its parent path \<^verbatim>\<open>.\<close> exists, yet no
  \<^verbatim>\<open>HISTFILE\<close> is passed, and nothing is warned either.\<close>

theorem history_file_option_counterexample:
  "\<not> existsSync home_fs [] \<and>
   existsSync home_fs (dirname []) \<and>
   psqlArgs (fst (psqlInteractiveOptions (Some []) home_fs ''myapp::DATABASE%R%# '' []))
     = [''--set'', ''PROMPT1=myapp::DATABASE%R%# '', ''--set'', ''PROMPT2=myapp::DATABASE%R%# '',
        ''--set'', ''sslmode=require''] \<and>
   snd (psqlInteractiveOptions (Some []) home_fs ''myapp::DATABASE%R%# '' []) = []"
  by (simp add: psqlInteractiveOptions_def dirname_def home_fs_def existsSync_def)

end
